theory Spec2Isabelle
  imports Main
begin

section \<open>The gateway's webhook handler and secret actions\<close>

text \<open>
  A shallow embedding of \<^verbatim>\<open>internal/services/gateway/api/webhook.go\<close>: the
  method \<^verbatim>\<open>webhooksHandler.do\<close> and, from package \<^verbatim>\<open>action\<close>,
  \<^verbatim>\<open>GetSecrets\<close>, \<^verbatim>\<open>CreateSecret\<close>, \<^verbatim>\<open>UpdateSecret\<close> and
  \<^verbatim>\<open>DeleteSecret\<close>.

  Every function returns its Go result together with the list of the effects it
  performed, in order: calls to the configstore client and the other collaborators, log
  entries, and the closing of the request body. The collaborators are parameters: a
  record holds, per method, the answer it gives to each argument. No function below calls
  the same method twice, so an answer per argument is all a run can observe. A call
  that returns \<^verbatim>\<open>(value, error)\<close> answers with a sum, \<open>Inl\<close> the error; the
  client's contract (a nil error comes with a non-nil value) is built into that type.
\<close>

subsection \<open>Errors\<close>

text \<open>
  The error kinds of package \<^verbatim>\<open>util\<close> that the file names, and the options
  it passes to \<^verbatim>\<open>util.NewAPIError\<close>. A formatted message keeps its format string
  and its arguments apart (\<^verbatim>\<open>fmt\<close>'s verbs are not expanded).
\<close>

datatype ErrorKind = ErrBadRequest | ErrForbidden | ErrInternal

datatype APIErrorOption =
    WithAPIErrorMsg string
  | WithAPIErrorMsgf string "string list"
  | InvalidSecretName

datatype error =
    CollaboratorError string
  | NewAPIError ErrorKind "APIErrorOption list"
  | NewAPIErrorWrap ErrorKind error "APIErrorOption list"
  | Wrapf error string

text \<open>A run either returns or panics (Go's nil pointer dereference).\<close>

datatype 'a outcome = Return 'a | PanicNilDereference

subsection \<open>Data of the configstore\<close>

text \<open>
  The types of packages \<^verbatim>\<open>cstypes\<close> and \<^verbatim>\<open>csapitypes\<close> are declared outside
  the given sources; each record below holds the fields that the file reads.
\<close>

text \<open>
  Modelled from the spec: \<^verbatim>\<open>cstypes.ObjectKind\<close>. Section 3 names the parent kinds
  Project and ProjectGroup, the two constants the switches of the file test. The switches
  have no default case, so a value of the Go type that is neither constant is kept as
  \<open>ObjectKindOther\<close>.
\<close>

datatype ObjectKind =
    ObjectKindProjectGroup
  | ObjectKindProject
  | ObjectKindOther string

record cs_Project =
  project_ID :: string
  project_LinkedAccountID :: string
  project_SSHPrivateKey :: string
  project_SkipSSHHostKeyCheck :: bool
  project_WebhookSecret :: string

record csapi_Project =
  Project :: cs_Project

record cs_User =
  user_ID :: string
  user_Name :: string

record cs_LinkedAccount =
  la_ID :: string
  la_RemoteSourceID :: string

record cs_RemoteSource =
  rs_ID :: string
  rs_SSHHostKey :: string
  rs_SkipSSHHostKeyCheck :: bool

text \<open>
  Modelled from the spec: the declaration of \<^verbatim>\<open>csapitypes.Secret\<close> is outside the
  given sources. A secret carries its name and the hierarchy level it came from
  (section 4.5: "each tagged with the hierarchy depth/level they came from"); a larger
  \<open>secret_Depth\<close> is closer to the leaf project.
\<close>

record csapi_Secret =
  secret_ID :: string
  secret_Name :: string
  secret_ParentKind :: ObjectKind
  secret_Depth :: nat

datatype SecretType = SecretTypeInternal | SecretTypeExternal

record CreateUpdateSecretRequest =
  cus_Name :: string
  cus_Type :: SecretType
  cus_Data :: "string \<rightharpoonup> string"

subsection \<open>The HTTP request\<close>

text \<open>
  \<open>req_Query\<close> is \<^verbatim>\<open>r.URL.Query()\<close>, a \<^verbatim>\<open>url.Values\<close>, that is a
  \<^verbatim>\<open>map[string][]string\<close>: reading an absent key gives the empty slice.
  \<open>req_URL\<close> is the URL as \<^verbatim>\<open>%q\<close> prints it.
\<close>

record http_Request =
  req_URL :: string
  req_Query :: "string \<Rightarrow> string list"
  req_Body :: string

text \<open>
  \<^verbatim>\<open>func (v Values) Get(key string) string\<close> of \<^verbatim>\<open>net/url\<close>: the first
  value of the key, or the empty string.
\<close>

definition Values_Get :: "(string \<Rightarrow> string list) \<Rightarrow> string \<Rightarrow> string" where
  "Values_Get v key = (let vs = v key in if length vs = 0 then [] else hd vs)"

subsection \<open>Webhook data and the run creation request\<close>

record WebhookData =
  wd_Event :: string
  wd_SSHURL :: string
  wd_RepoPath :: string
  wd_CommitSHA :: string
  wd_Message :: string
  wd_Branch :: string
  wd_Tag :: string
  wd_PullRequestID :: string
  wd_PRFromSameRepo :: bool
  wd_Ref :: string
  wd_CommitLink :: string
  wd_BranchLink :: string
  wd_TagLink :: string
  wd_PullRequestLink :: string
  wd_CompareLink :: string

text \<open>
  The provider client that \<^verbatim>\<open>GetGitSource\<close> builds: its webhook parser answers
  an error, no event (\<open>Inr None\<close>, Go's \<^verbatim>\<open>nil, nil\<close>) or an event.
\<close>

record GitSource =
  ParseWebhook :: "http_Request \<Rightarrow> string \<Rightarrow> error + WebhookData option"

text \<open>
  Modelled from the spec: the run type and the trigger type of package \<^verbatim>\<open>types\<close>,
  declared outside the given sources. The file names one constant of each; the glossary
  lists the triggers webhook, manual and scheduled.
\<close>

datatype RunType = RunTypeProject | RunTypeOther string

datatype RunCreationTriggerType =
    RunCreationTriggerTypeWebhook
  | RunCreationTriggerTypeManual
  | RunCreationTriggerTypeScheduled

record CreateRunRequest =
  crr_RunType :: RunType
  crr_RefType :: string
  crr_RunCreationTrigger :: RunCreationTriggerType
  crr_Project :: cs_Project
  crr_User :: "cs_User option"
  crr_RepoPath :: string
  crr_GitSource :: GitSource
  crr_CommitSHA :: string
  crr_Message :: string
  crr_Branch :: string
  crr_Tag :: string
  crr_PullRequestID :: string
  crr_PRFromSameRepo :: bool
  crr_Ref :: string
  crr_SSHPrivKey :: string
  crr_SSHHostKey :: string
  crr_SkipSSHHostKeyCheck :: bool
  crr_CloneURL :: string
  crr_CommitLink :: string
  crr_BranchLink :: string
  crr_TagLink :: string
  crr_PullRequestLink :: string
  crr_CompareLink :: string

subsection \<open>Collaborators\<close>

text \<open>The methods of \<^verbatim>\<open>csclient.Client\<close> that the file calls.\<close>

record csclient =
  GetProject :: "string \<Rightarrow> error + csapi_Project"
  GetUserByLinkedAccount :: "string \<Rightarrow> error + cs_User"
  GetUserLinkedAccounts :: "string \<Rightarrow> error + cs_LinkedAccount list"
  GetRemoteSource :: "string \<Rightarrow> error + cs_RemoteSource"
  GetProjectGroupSecrets :: "string \<Rightarrow> bool \<Rightarrow> error + csapi_Secret list"
  GetProjectSecrets :: "string \<Rightarrow> bool \<Rightarrow> error + csapi_Secret list"
  CreateProjectGroupSecret :: "string \<Rightarrow> CreateUpdateSecretRequest \<Rightarrow> error + csapi_Secret"
  CreateProjectSecret :: "string \<Rightarrow> CreateUpdateSecretRequest \<Rightarrow> error + csapi_Secret"
  UpdateProjectGroupSecret ::
    "string \<Rightarrow> string \<Rightarrow> CreateUpdateSecretRequest \<Rightarrow> error + csapi_Secret"
  UpdateProjectSecret ::
    "string \<Rightarrow> string \<Rightarrow> CreateUpdateSecretRequest \<Rightarrow> error + csapi_Secret"
  DeleteProjectGroupSecret :: "string \<Rightarrow> string \<Rightarrow> error option"
  DeleteProjectSecret :: "string \<Rightarrow> string \<Rightarrow> error option"

text \<open>
  \<^verbatim>\<open>action.ActionHandler\<close>: its configstore client, and the methods declared
  outside the given sources that the file calls.
\<close>

record ActionHandler =
  ah_configstoreClient :: csclient
  IsAuthUserVariableOwner :: "ObjectKind \<Rightarrow> string \<Rightarrow> error + bool"
  GetGitSource :: "cs_RemoteSource \<Rightarrow> string \<Rightarrow> cs_LinkedAccount \<Rightarrow> error + GitSource"
  CreateRuns :: "CreateRunRequest \<Rightarrow> error option"

text \<open>The handler's collaborators; its logger shows as log effects.\<close>

record webhooksHandler =
  wh_ah :: ActionHandler
  wh_configstoreClient :: csclient
  wh_apiExposedURL :: string

text \<open>
  The package-level functions declared outside the given sources, taken as parameters:
  \<^verbatim>\<open>util.ValidateName\<close>, \<^verbatim>\<open>action.APIErrorFromRemoteError\<close> and
  \<^verbatim>\<open>common.WebHookEventToRunRefType\<close>.
\<close>

record packages =
  ValidateName :: "string \<Rightarrow> bool"
  APIErrorFromRemoteError :: "error \<Rightarrow> APIErrorOption list \<Rightarrow> error"
  WebHookEventToRunRefType :: "string \<Rightarrow> string"

subsection \<open>Effects\<close>

datatype effect =
    CallGetProject string
  | CallGetUserByLinkedAccount string
  | CallGetUserLinkedAccounts string
  | CallGetRemoteSource string
  | CallGetGitSource cs_RemoteSource string cs_LinkedAccount
  | CallParseWebhook string
  | CallCreateRuns CreateRunRequest
  | BodyClose
  | LogInfo string
  | LogInfof string "string list"
  | CallIsAuthUserVariableOwner ObjectKind string
  | CallGetProjectGroupSecrets string bool
  | CallGetProjectSecrets string bool
  | CallCreateProjectGroupSecret string CreateUpdateSecretRequest
  | CallCreateProjectSecret string CreateUpdateSecretRequest
  | CallUpdateProjectGroupSecret string string CreateUpdateSecretRequest
  | CallUpdateProjectSecret string string CreateUpdateSecretRequest
  | CallDeleteProjectGroupSecret string string
  | CallDeleteProjectSecret string string

text \<open>\<open>emit e k\<close>: the effect \<open>e\<close> happens, then the rest of the run \<open>k\<close>.\<close>

definition emit :: "effect \<Rightarrow> 'a \<times> effect list \<Rightarrow> 'a \<times> effect list" where
  "emit e k = (fst k, e # snd k)"

subsection \<open>The webhook handler\<close>

text \<open>
  Lines 82 to 88 of \<^verbatim>\<open>do\<close>: the scan of the user's linked accounts for the one
  the project refers to, stopping at the first match.
\<close>

fun scanLinkedAccounts :: "cs_LinkedAccount list \<Rightarrow> string \<Rightarrow> cs_LinkedAccount option" where
  "scanLinkedAccounts [] linkedAccountID = None"
| "scanLinkedAccounts (v # vs) linkedAccountID =
     (if la_ID v = linkedAccountID then Some v else scanLinkedAccounts vs linkedAccountID)"

text \<open>
  Lines 107 to 110: the remote source's flag, replaced by the project's when the
  project's is set.
\<close>

definition skipSSHHostKeyCheck :: "cs_RemoteSource \<Rightarrow> cs_Project \<Rightarrow> bool" where
  "skipSSHHostKeyCheck rs project =
     (let skip = rs_SkipSSHHostKeyCheck rs in
      if project_SkipSSHHostKeyCheck project then project_SkipSSHHostKeyCheck project else skip)"

text \<open>Lines 123 to 151: the request handed to \<^verbatim>\<open>CreateRuns\<close>.\<close>

definition buildCreateRunRequest ::
  "packages \<Rightarrow> cs_Project \<Rightarrow> cs_RemoteSource \<Rightarrow> GitSource \<Rightarrow> WebhookData \<Rightarrow> CreateRunRequest" where
  "buildCreateRunRequest pk project rs gitSource webhookData =
     (let sshPrivKey = project_SSHPrivateKey project;
          sshHostKey = rs_SSHHostKey rs;
          cloneURL = wd_SSHURL webhookData in
      \<lparr> crr_RunType = RunTypeProject,
        crr_RefType = WebHookEventToRunRefType pk (wd_Event webhookData),
        crr_RunCreationTrigger = RunCreationTriggerTypeWebhook,
        crr_Project = project,
        crr_User = None,
        crr_RepoPath = wd_RepoPath webhookData,
        crr_GitSource = gitSource,
        crr_CommitSHA = wd_CommitSHA webhookData,
        crr_Message = wd_Message webhookData,
        crr_Branch = wd_Branch webhookData,
        crr_Tag = wd_Tag webhookData,
        crr_PullRequestID = wd_PullRequestID webhookData,
        crr_PRFromSameRepo = wd_PRFromSameRepo webhookData,
        crr_Ref = wd_Ref webhookData,
        crr_SSHPrivKey = sshPrivKey,
        crr_SSHHostKey = sshHostKey,
        crr_SkipSSHHostKeyCheck = skipSSHHostKeyCheck rs project,
        crr_CloneURL = cloneURL,
        crr_CommitLink = wd_CommitLink webhookData,
        crr_BranchLink = wd_BranchLink webhookData,
        crr_TagLink = wd_TagLink webhookData,
        crr_PullRequestLink = wd_PullRequestLink webhookData,
        crr_CompareLink = wd_CompareLink webhookData \<rparr>)"

text \<open>
  Lines 67 to 156 of \<^verbatim>\<open>do\<close>: what runs once \<^verbatim>\<open>defer r.Body.Close()\<close> is
  registered. The result is the returned error (\<open>None\<close> is Go's \<^verbatim>\<open>nil\<close>).
\<close>

definition do_afterDefer ::
  "packages \<Rightarrow> webhooksHandler \<Rightarrow> http_Request \<Rightarrow> string \<Rightarrow> error option \<times> effect list" where
  "do_afterDefer pk h r projectID =
     emit (CallGetProject projectID)
     (case GetProject (wh_configstoreClient h) projectID of
        Inl err \<Rightarrow>
          (Some (APIErrorFromRemoteError pk err
                   [WithAPIErrorMsgf ''failed to get project %s'' [projectID]]), [])
      | Inr csProject \<Rightarrow>
     (let project = Project csProject in
      emit (CallGetUserByLinkedAccount (project_LinkedAccountID project))
     (case GetUserByLinkedAccount (wh_configstoreClient h) (project_LinkedAccountID project) of
        Inl err \<Rightarrow>
          (Some (APIErrorFromRemoteError pk err
                   [WithAPIErrorMsgf ''failed to get user by linked account %q''
                      [project_LinkedAccountID project]]), [])
      | Inr user \<Rightarrow>
      emit (CallGetUserLinkedAccounts (user_ID user))
     (case GetUserLinkedAccounts (wh_configstoreClient h) (user_ID user) of
        Inl err \<Rightarrow>
          (Some (APIErrorFromRemoteError pk err
                   [WithAPIErrorMsgf ''failed to get user %q linked accounts'' [user_ID user]]), [])
      | Inr linkedAccounts \<Rightarrow>
     (case scanLinkedAccounts linkedAccounts (project_LinkedAccountID project) of
        None \<Rightarrow>
          (Some (NewAPIError ErrInternal
                   [WithAPIErrorMsgf ''linked account %q for user %q doesn't exist''
                      [project_LinkedAccountID project, user_Name user]]), [])
      | Some la \<Rightarrow>
      emit (CallGetRemoteSource (la_RemoteSourceID la))
     (case GetRemoteSource (wh_configstoreClient h) (la_RemoteSourceID la) of
        Inl err \<Rightarrow>
          (Some (APIErrorFromRemoteError pk err
                   [WithAPIErrorMsgf ''failed to get remote source %q'' [la_RemoteSourceID la]]), [])
      | Inr rs \<Rightarrow>
      emit (CallGetGitSource rs (user_Name user) la)
     (case GetGitSource (wh_ah h) rs (user_Name user) la of
        Inl err \<Rightarrow>
          (Some (NewAPIErrorWrap ErrInternal err
                   [WithAPIErrorMsg ''failed to create gitea client'']), [])
      | Inr gitSource \<Rightarrow>
      emit (CallParseWebhook (project_WebhookSecret project))
     (case ParseWebhook gitSource r (project_WebhookSecret project) of
        Inl err \<Rightarrow>
          (Some (NewAPIErrorWrap ErrBadRequest err
                   [WithAPIErrorMsg ''failed to parse webhook'']), [])
      | Inr None \<Rightarrow> emit (LogInfo ''skipping webhook'') (None, [])
      | Inr (Some webhookData) \<Rightarrow>
     (let req = buildCreateRunRequest pk project rs gitSource webhookData in
      emit (CallCreateRuns req)
     (case CreateRuns (wh_ah h) req of
        Some err \<Rightarrow>
          (Some (NewAPIErrorWrap ErrInternal err [WithAPIErrorMsg ''failed to create run'']), [])
      | None \<Rightarrow> (None, [])))))))))))"

text \<open>
  \<^verbatim>\<open>func (h *webhooksHandler) do(r *http.Request) error\<close>. The deferred
  \<^verbatim>\<open>r.Body.Close()\<close> is registered on line 65, after the return of line 62, and
  runs when a later return leaves the function.
\<close>

definition webhooksHandler_do ::
  "packages \<Rightarrow> webhooksHandler \<Rightarrow> http_Request \<Rightarrow> error option \<times> effect list" where
  "webhooksHandler_do pk h r =
     (let projectID = Values_Get (req_Query r) ''projectid'' in
      if projectID = [] then
        (Some (NewAPIError ErrBadRequest
                 [WithAPIErrorMsgf ''bad webhook url %q. Missing projectid'' [req_URL r]]), [])
      else
        (let res = do_afterDefer pk h r projectID in (fst res, snd res @ [BodyClose])))"

subsection \<open>The secret actions\<close>

record GetSecretsRequest =
  gsr_ParentType :: ObjectKind
  gsr_ParentRef :: string
  gsr_Tree :: bool
  gsr_RemoveOverridden :: bool

record CreateSecretRequest =
  csr_Name :: string
  csr_ParentType :: ObjectKind
  csr_ParentRef :: string
  csr_Type :: SecretType
  csr_Data :: "string \<rightharpoonup> string"
  csr_SecretProviderID :: string
  csr_Path :: string

record UpdateSecretRequest =
  usr_SecretName :: string
  usr_Name :: string
  usr_ParentType :: ObjectKind
  usr_ParentRef :: string
  usr_Type :: SecretType
  usr_Data :: "string \<rightharpoonup> string"
  usr_SecretProviderID :: string
  usr_Path :: string

text \<open>
  Modelled from the spec: \<^verbatim>\<open>common.FilterOverriddenSecrets\<close> is called by
  \<^verbatim>\<open>GetSecrets\<close> and declared outside the given sources. Section 4.5: the output
  holds, "for each distinct name, only the secret from the most specific (deepest /
  closest to the leaf Project) level; secrets from shallower ancestor levels with the
  same name are dropped". The secrets that stay keep the order of the input.
\<close>

definition overridden :: "csapi_Secret list \<Rightarrow> csapi_Secret \<Rightarrow> bool" where
  "overridden secrets s =
     (\<exists>t \<in> set secrets. secret_Name t = secret_Name s \<and> secret_Depth s < secret_Depth t)"

definition FilterOverriddenSecrets :: "csapi_Secret list \<Rightarrow> csapi_Secret list" where
  "FilterOverriddenSecrets secrets = filter (\<lambda>s. \<not> overridden secrets s) secrets"

text \<open>
  The Go pair \<^verbatim>\<open>(value, error)\<close> that an assignment from a client call stores:
  a nil pointer (\<open>None\<close>) or a nil slice (\<open>[]\<close>) beside an error.
\<close>

definition ptrResult :: "error + 'a \<Rightarrow> 'a option \<times> error option" where
  "ptrResult a = (case a of Inl err \<Rightarrow> (None, Some err) | Inr v \<Rightarrow> (Some v, None))"

definition sliceResult :: "error + 'a list \<Rightarrow> 'a list \<times> error option" where
  "sliceResult a = (case a of Inl err \<Rightarrow> ([], Some err) | Inr v \<Rightarrow> (v, None))"

text \<open>
  \<^verbatim>\<open>func (h *ActionHandler) GetSecrets\<close>. The switch has no default: for another
  parent type \<^verbatim>\<open>cssecrets\<close> and \<^verbatim>\<open>err\<close> keep their zero values.
\<close>

definition GetSecrets ::
  "packages \<Rightarrow> ActionHandler \<Rightarrow> GetSecretsRequest \<Rightarrow> (error + csapi_Secret list) \<times> effect list" where
  "GetSecrets pk h req =
     (let sw =
        (case gsr_ParentType req of
           ObjectKindProjectGroup \<Rightarrow>
             (sliceResult (GetProjectGroupSecrets (ah_configstoreClient h) (gsr_ParentRef req) (gsr_Tree req)),
              [CallGetProjectGroupSecrets (gsr_ParentRef req) (gsr_Tree req)])
         | ObjectKindProject \<Rightarrow>
             (sliceResult (GetProjectSecrets (ah_configstoreClient h) (gsr_ParentRef req) (gsr_Tree req)),
              [CallGetProjectSecrets (gsr_ParentRef req) (gsr_Tree req)])
         | ObjectKindOther k \<Rightarrow> (([], None), []));
          cssecrets = fst (fst sw);
          err = snd (fst sw)
      in case err of
           Some e \<Rightarrow> (Inl (APIErrorFromRemoteError pk e []), snd sw)
         | None \<Rightarrow>
             (Inr (if gsr_RemoveOverridden req then FilterOverriddenSecrets cssecrets else cssecrets),
              snd sw))"

text \<open>
  Lines 244 to 264 of \<^verbatim>\<open>CreateSecret\<close>: the delegation by parent type. It is
  reached with \<^verbatim>\<open>err == nil\<close>; with no case of the switch taken, \<^verbatim>\<open>rs\<close>
  is still nil when line 262 reads \<^verbatim>\<open>rs.Name\<close>.
\<close>

definition CreateSecret_delegate ::
  "packages \<Rightarrow> ActionHandler \<Rightarrow> CreateSecretRequest \<Rightarrow> (error + csapi_Secret) outcome \<times> effect list" where
  "CreateSecret_delegate pk h req =
     (let creq = \<lparr> cus_Name = csr_Name req, cus_Type = csr_Type req, cus_Data = csr_Data req \<rparr>;
          sw =
        (case csr_ParentType req of
           ObjectKindProjectGroup \<Rightarrow>
             (ptrResult (CreateProjectGroupSecret (ah_configstoreClient h) (csr_ParentRef req) creq),
              [LogInfo ''creating project group secret'',
               CallCreateProjectGroupSecret (csr_ParentRef req) creq])
         | ObjectKindProject \<Rightarrow>
             (ptrResult (CreateProjectSecret (ah_configstoreClient h) (csr_ParentRef req) creq),
              [LogInfo ''creating project secret'',
               CallCreateProjectSecret (csr_ParentRef req) creq])
         | ObjectKindOther k \<Rightarrow> ((None, None), []))
      in case snd (fst sw) of
           Some err \<Rightarrow>
             (Return (Inl (APIErrorFromRemoteError pk err [WithAPIErrorMsg ''failed to create secret''])),
              snd sw)
         | None \<Rightarrow>
             (case fst (fst sw) of
                None \<Rightarrow> (PanicNilDereference, snd sw)
              | Some rs \<Rightarrow>
                  (Return (Inr rs),
                   snd sw @ [LogInfof ''secret %s created, ID: %s'' [secret_Name rs, secret_ID rs]])))"

text \<open>\<^verbatim>\<open>func (h *ActionHandler) CreateSecret\<close>.\<close>

definition CreateSecret ::
  "packages \<Rightarrow> ActionHandler \<Rightarrow> CreateSecretRequest \<Rightarrow> (error + csapi_Secret) outcome \<times> effect list" where
  "CreateSecret pk h req =
     emit (CallIsAuthUserVariableOwner (csr_ParentType req) (csr_ParentRef req))
     (case IsAuthUserVariableOwner h (csr_ParentType req) (csr_ParentRef req) of
        Inl err \<Rightarrow> (Return (Inl (Wrapf err ''failed to determine ownership'')), [])
      | Inr isVariableOwner \<Rightarrow>
          if \<not> isVariableOwner then
            (Return (Inl (NewAPIError ErrForbidden [WithAPIErrorMsg ''user not authorized''])), [])
          else if \<not> ValidateName pk (csr_Name req) then
            (Return (Inl (NewAPIError ErrBadRequest
               [WithAPIErrorMsgf ''invalid secret name %q'' [csr_Name req], InvalidSecretName])), [])
          else CreateSecret_delegate pk h req)"

text \<open>Lines 298 to 318 of \<^verbatim>\<open>UpdateSecret\<close>: the delegation by parent type.\<close>

definition UpdateSecret_delegate ::
  "packages \<Rightarrow> ActionHandler \<Rightarrow> UpdateSecretRequest \<Rightarrow> (error + csapi_Secret) outcome \<times> effect list" where
  "UpdateSecret_delegate pk h req =
     (let creq = \<lparr> cus_Name = usr_Name req, cus_Type = usr_Type req, cus_Data = usr_Data req \<rparr>;
          sw =
        (case usr_ParentType req of
           ObjectKindProjectGroup \<Rightarrow>
             (ptrResult (UpdateProjectGroupSecret (ah_configstoreClient h)
                           (usr_ParentRef req) (usr_SecretName req) creq),
              [LogInfo ''updating project group secret'',
               CallUpdateProjectGroupSecret (usr_ParentRef req) (usr_SecretName req) creq])
         | ObjectKindProject \<Rightarrow>
             (ptrResult (UpdateProjectSecret (ah_configstoreClient h)
                           (usr_ParentRef req) (usr_SecretName req) creq),
              [LogInfo ''updating project secret'',
               CallUpdateProjectSecret (usr_ParentRef req) (usr_SecretName req) creq])
         | ObjectKindOther k \<Rightarrow> ((None, None), []))
      in case snd (fst sw) of
           Some err \<Rightarrow>
             (Return (Inl (APIErrorFromRemoteError pk err [WithAPIErrorMsg ''failed to update secret''])),
              snd sw)
         | None \<Rightarrow>
             (case fst (fst sw) of
                None \<Rightarrow> (PanicNilDereference, snd sw)
              | Some rs \<Rightarrow>
                  (Return (Inr rs),
                   snd sw @ [LogInfof ''secret %s updated, ID: %s'' [secret_Name rs, secret_ID rs]])))"

text \<open>\<^verbatim>\<open>func (h *ActionHandler) UpdateSecret\<close>.\<close>

definition UpdateSecret ::
  "packages \<Rightarrow> ActionHandler \<Rightarrow> UpdateSecretRequest \<Rightarrow> (error + csapi_Secret) outcome \<times> effect list" where
  "UpdateSecret pk h req =
     emit (CallIsAuthUserVariableOwner (usr_ParentType req) (usr_ParentRef req))
     (case IsAuthUserVariableOwner h (usr_ParentType req) (usr_ParentRef req) of
        Inl err \<Rightarrow> (Return (Inl (Wrapf err ''failed to determine ownership'')), [])
      | Inr isVariableOwner \<Rightarrow>
          if \<not> isVariableOwner then
            (Return (Inl (NewAPIError ErrForbidden [WithAPIErrorMsg ''user not authorized''])), [])
          else if \<not> ValidateName pk (usr_Name req) then
            (Return (Inl (NewAPIError ErrBadRequest
               [WithAPIErrorMsgf ''invalid secret name %q'' [usr_Name req], InvalidSecretName])), [])
          else UpdateSecret_delegate pk h req)"

text \<open>
  \<^verbatim>\<open>func (h *ActionHandler) DeleteSecret\<close>. With no case of the switch taken,
  \<^verbatim>\<open>err\<close> is still the nil that the ownership check returned.
\<close>

definition DeleteSecret ::
  "packages \<Rightarrow> ActionHandler \<Rightarrow> ObjectKind \<Rightarrow> string \<Rightarrow> string \<Rightarrow> error option \<times> effect list" where
  "DeleteSecret pk h parentType parentRef name =
     emit (CallIsAuthUserVariableOwner parentType parentRef)
     (case IsAuthUserVariableOwner h parentType parentRef of
        Inl err \<Rightarrow> (Some (Wrapf err ''failed to determine ownership''), [])
      | Inr isVariableOwner \<Rightarrow>
          if \<not> isVariableOwner then
            (Some (NewAPIError ErrForbidden [WithAPIErrorMsg ''user not authorized'']), [])
          else
            (let sw =
               (case parentType of
                  ObjectKindProjectGroup \<Rightarrow>
                    (DeleteProjectGroupSecret (ah_configstoreClient h) parentRef name,
                     [LogInfo ''deleting project group secret'',
                      CallDeleteProjectGroupSecret parentRef name])
                | ObjectKindProject \<Rightarrow>
                    (DeleteProjectSecret (ah_configstoreClient h) parentRef name,
                     [LogInfo ''deleting project secret'',
                      CallDeleteProjectSecret parentRef name])
                | ObjectKindOther k \<Rightarrow> (None, []))
             in case fst sw of
                  Some err \<Rightarrow>
                    (Some (APIErrorFromRemoteError pk err [WithAPIErrorMsg ''failed to delete secret'']),
                     snd sw)
                | None \<Rightarrow> (None, snd sw)))"

text \<open>The calls that change the store, and the calls that reach it at all.\<close>

fun isStoreMutation :: "effect \<Rightarrow> bool" where
  "isStoreMutation (CallCreateProjectGroupSecret ref creq) = True"
| "isStoreMutation (CallCreateProjectSecret ref creq) = True"
| "isStoreMutation (CallUpdateProjectGroupSecret ref n creq) = True"
| "isStoreMutation (CallUpdateProjectSecret ref n creq) = True"
| "isStoreMutation (CallDeleteProjectGroupSecret ref n) = True"
| "isStoreMutation (CallDeleteProjectSecret ref n) = True"
| "isStoreMutation e = False"

fun isStoreCall :: "effect \<Rightarrow> bool" where
  "isStoreCall (CallGetProject i) = True"
| "isStoreCall (CallGetUserByLinkedAccount i) = True"
| "isStoreCall (CallGetUserLinkedAccounts i) = True"
| "isStoreCall (CallGetRemoteSource i) = True"
| "isStoreCall (CallGetProjectGroupSecrets ref t) = True"
| "isStoreCall (CallGetProjectSecrets ref t) = True"
| "isStoreCall e = isStoreMutation e"

fun isCreateRuns :: "effect \<Rightarrow> bool" where
  "isCreateRuns (CallCreateRuns req) = True"
| "isCreateRuns e = False"

subsection \<open>A concrete deployment\<close>

text \<open>
  One store, one action handler and one webhook handler, on which the theorems below are
  run. Project \<open>p1\<close> belongs to alice, whose linked account \<open>la1\<close> is on remote
  source \<open>rs1\<close>; project \<open>p2\<close> refers to a linked account \<open>la9\<close> that its user
  bob does not hold. The parser of the example provider yields no event for a body
  \<open>ping\<close>. The name rule of the example refuses the empty name and names with a blank.
\<close>

definition ex_project :: cs_Project where
  "ex_project = \<lparr> project_ID = ''p1'', project_LinkedAccountID = ''la1'',
     project_SSHPrivateKey = ''privkey'', project_SkipSSHHostKeyCheck = True,
     project_WebhookSecret = ''hooksecret'' \<rparr>"

definition ex_project2 :: cs_Project where
  "ex_project2 = \<lparr> project_ID = ''p2'', project_LinkedAccountID = ''la9'',
     project_SSHPrivateKey = ''privkey2'', project_SkipSSHHostKeyCheck = False,
     project_WebhookSecret = ''hooksecret2'' \<rparr>"

definition ex_alice :: cs_User where
  "ex_alice = \<lparr> user_ID = ''u1'', user_Name = ''alice'' \<rparr>"

definition ex_bob :: cs_User where
  "ex_bob = \<lparr> user_ID = ''u2'', user_Name = ''bob'' \<rparr>"

definition ex_la0 :: cs_LinkedAccount where
  "ex_la0 = \<lparr> la_ID = ''la0'', la_RemoteSourceID = ''rs0'' \<rparr>"

definition ex_la1 :: cs_LinkedAccount where
  "ex_la1 = \<lparr> la_ID = ''la1'', la_RemoteSourceID = ''rs1'' \<rparr>"

definition ex_rs :: cs_RemoteSource where
  "ex_rs = \<lparr> rs_ID = ''rs1'', rs_SSHHostKey = ''hostkey'', rs_SkipSSHHostKeyCheck = False \<rparr>"

definition ex_webhookData :: WebhookData where
  "ex_webhookData = \<lparr> wd_Event = ''push'', wd_SSHURL = ''git@host:org/repo.git'',
     wd_RepoPath = ''org/repo'', wd_CommitSHA = ''abc123'', wd_Message = ''fix'',
     wd_Branch = ''main'', wd_Tag = [], wd_PullRequestID = [], wd_PRFromSameRepo = False,
     wd_Ref = ''refs/heads/main'', wd_CommitLink = ''c'', wd_BranchLink = ''b'',
     wd_TagLink = [], wd_PullRequestLink = [], wd_CompareLink = ''d'' \<rparr>"

definition ex_gitSource :: GitSource where
  "ex_gitSource = \<lparr> ParseWebhook =
     (\<lambda>r secret. if req_Body r = ''ping'' then Inr None else Inr (Some ex_webhookData)) \<rparr>"

definition ex_secretA_group :: csapi_Secret where
  "ex_secretA_group = \<lparr> secret_ID = ''s1'', secret_Name = ''A'',
     secret_ParentKind = ObjectKindProjectGroup, secret_Depth = 1 \<rparr>"

definition ex_secretA_project :: csapi_Secret where
  "ex_secretA_project = \<lparr> secret_ID = ''s2'', secret_Name = ''A'',
     secret_ParentKind = ObjectKindProject, secret_Depth = 2 \<rparr>"

definition ex_secretB_group :: csapi_Secret where
  "ex_secretB_group = \<lparr> secret_ID = ''s3'', secret_Name = ''B'',
     secret_ParentKind = ObjectKindProjectGroup, secret_Depth = 1 \<rparr>"

definition ex_store :: csclient where
  "ex_store = \<lparr>
     GetProject = (\<lambda>i. if i = ''p1'' then Inr \<lparr> Project = ex_project \<rparr>
                       else if i = ''p2'' then Inr \<lparr> Project = ex_project2 \<rparr>
                       else Inl (CollaboratorError ''project not found'')),
     GetUserByLinkedAccount = (\<lambda>i. if i = ''la1'' then Inr ex_alice
                       else if i = ''la9'' then Inr ex_bob
                       else Inl (CollaboratorError ''user not found'')),
     GetUserLinkedAccounts = (\<lambda>i. if i = ''u1'' then Inr [ex_la0, ex_la1]
                       else if i = ''u2'' then Inr [ex_la0]
                       else Inl (CollaboratorError ''user not found'')),
     GetRemoteSource = (\<lambda>i. if i = ''rs1'' then Inr ex_rs
                       else Inl (CollaboratorError ''remote source not found'')),
     GetProjectGroupSecrets = (\<lambda>ref tree. Inr [ex_secretA_group, ex_secretB_group]),
     GetProjectSecrets = (\<lambda>ref tree.
        if tree then Inr [ex_secretA_group, ex_secretA_project, ex_secretB_group]
        else Inr [ex_secretA_project]),
     CreateProjectGroupSecret = (\<lambda>ref creq. Inr \<lparr> secret_ID = ''new'', secret_Name = cus_Name creq,
        secret_ParentKind = ObjectKindProjectGroup, secret_Depth = 1 \<rparr>),
     CreateProjectSecret = (\<lambda>ref creq. Inr \<lparr> secret_ID = ''new'', secret_Name = cus_Name creq,
        secret_ParentKind = ObjectKindProject, secret_Depth = 2 \<rparr>),
     UpdateProjectGroupSecret = (\<lambda>ref n creq. Inr \<lparr> secret_ID = ''s1'', secret_Name = cus_Name creq,
        secret_ParentKind = ObjectKindProjectGroup, secret_Depth = 1 \<rparr>),
     UpdateProjectSecret = (\<lambda>ref n creq. Inr \<lparr> secret_ID = ''s2'', secret_Name = cus_Name creq,
        secret_ParentKind = ObjectKindProject, secret_Depth = 2 \<rparr>),
     DeleteProjectGroupSecret = (\<lambda>ref n. None),
     DeleteProjectSecret = (\<lambda>ref n. None) \<rparr>"

definition ex_ah :: ActionHandler where
  "ex_ah = \<lparr> ah_configstoreClient = ex_store,
     IsAuthUserVariableOwner = (\<lambda>kind ref. Inr (ref \<noteq> ''foreign'')),
     GetGitSource = (\<lambda>rs userName la. Inr ex_gitSource),
     CreateRuns = (\<lambda>req. None) \<rparr>"

definition ex_handler :: webhooksHandler where
  "ex_handler = \<lparr> wh_ah = ex_ah, wh_configstoreClient = ex_store,
     wh_apiExposedURL = ''https://agola.example'' \<rparr>"

definition ex_packages :: packages where
  "ex_packages = \<lparr>
     ValidateName = (\<lambda>s. s \<noteq> [] \<and> CHR '' '' \<notin> set s),
     APIErrorFromRemoteError = (\<lambda>err opts. NewAPIErrorWrap ErrInternal err opts),
     WebHookEventToRunRefType = (\<lambda>ev. if ev = ''push'' then ''branch'' else ''tag'') \<rparr>"

definition ex_push :: http_Request where
  "ex_push = \<lparr> req_URL = ''/webhooks?projectid=p1'',
     req_Query = (\<lambda>k. if k = ''projectid'' then [''p1''] else []), req_Body = ''push'' \<rparr>"

definition ex_ping :: http_Request where
  "ex_ping = \<lparr> req_URL = ''/webhooks?projectid=p1'',
     req_Query = (\<lambda>k. if k = ''projectid'' then [''p1''] else []), req_Body = ''ping'' \<rparr>"

definition ex_orphan :: http_Request where
  "ex_orphan = \<lparr> req_URL = ''/webhooks?projectid=p2'',
     req_Query = (\<lambda>k. if k = ''projectid'' then [''p2''] else []), req_Body = ''push'' \<rparr>"

definition ex_noid :: http_Request where
  "ex_noid = \<lparr> req_URL = ''/webhooks'', req_Query = (\<lambda>k. []), req_Body = ''push'' \<rparr>"

definition ex_createSecretRequest :: "string \<Rightarrow> ObjectKind \<Rightarrow> string \<Rightarrow> CreateSecretRequest" where
  "ex_createSecretRequest n kind ref = \<lparr> csr_Name = n, csr_ParentType = kind, csr_ParentRef = ref,
     csr_Type = SecretTypeInternal, csr_Data = [''k'' \<mapsto> ''v''],
     csr_SecretProviderID = [], csr_Path = [] \<rparr>"

definition ex_updateSecretRequest :: "string \<Rightarrow> ObjectKind \<Rightarrow> string \<Rightarrow> UpdateSecretRequest" where
  "ex_updateSecretRequest n kind ref = \<lparr> usr_SecretName = ''old'', usr_Name = n,
     usr_ParentType = kind, usr_ParentRef = ref,
     usr_Type = SecretTypeInternal, usr_Data = [''k'' \<mapsto> ''v''],
     usr_SecretProviderID = [], usr_Path = [] \<rparr>"

definition ex_getSecretsRequest :: GetSecretsRequest where
  "ex_getSecretsRequest = \<lparr> gsr_ParentType = ObjectKindProject, gsr_ParentRef = ''p1'',
     gsr_Tree = True, gsr_RemoveOverridden = True \<rparr>"

section \<open>Properties of the webhook handler\<close>

subsection \<open>The paths through \<^verbatim>\<open>do\<close>\<close>

lemma scanLinkedAccounts_None:
  "(scanLinkedAccounts linkedAccounts i = None) = (\<forall>v \<in> set linkedAccounts. la_ID v \<noteq> i)"
  by (induction linkedAccounts) auto

lemma skipSSHHostKeyCheck_eq:
  "skipSSHHostKeyCheck rs project =
     (rs_SkipSSHHostKeyCheck rs \<or> project_SkipSSHHostKeyCheck project)"
  by (simp add: skipSSHHostKeyCheck_def)

lemma do_run_path:
  assumes "Values_Get (req_Query r) ''projectid'' = projectID" and "projectID \<noteq> []"
    and "GetProject (wh_configstoreClient h) projectID = Inr csProject"
    and "GetUserByLinkedAccount (wh_configstoreClient h)
           (project_LinkedAccountID (Project csProject)) = Inr user"
    and "GetUserLinkedAccounts (wh_configstoreClient h) (user_ID user) = Inr linkedAccounts"
    and "scanLinkedAccounts linkedAccounts (project_LinkedAccountID (Project csProject)) = Some la"
    and "GetRemoteSource (wh_configstoreClient h) (la_RemoteSourceID la) = Inr rs"
    and "GetGitSource (wh_ah h) rs (user_Name user) la = Inr gitSource"
    and "ParseWebhook gitSource r (project_WebhookSecret (Project csProject)) = Inr (Some webhookData)"
  shows "snd (webhooksHandler_do pk h r) =
     [CallGetProject projectID,
      CallGetUserByLinkedAccount (project_LinkedAccountID (Project csProject)),
      CallGetUserLinkedAccounts (user_ID user),
      CallGetRemoteSource (la_RemoteSourceID la),
      CallGetGitSource rs (user_Name user) la,
      CallParseWebhook (project_WebhookSecret (Project csProject)),
      CallCreateRuns (buildCreateRunRequest pk (Project csProject) rs gitSource webhookData),
      BodyClose]"
  using assms
  by (simp add: webhooksHandler_do_def do_afterDefer_def emit_def Let_def split: option.splits)

lemma do_skip_path:
  assumes "Values_Get (req_Query r) ''projectid'' = projectID" and "projectID \<noteq> []"
    and "GetProject (wh_configstoreClient h) projectID = Inr csProject"
    and "GetUserByLinkedAccount (wh_configstoreClient h)
           (project_LinkedAccountID (Project csProject)) = Inr user"
    and "GetUserLinkedAccounts (wh_configstoreClient h) (user_ID user) = Inr linkedAccounts"
    and "scanLinkedAccounts linkedAccounts (project_LinkedAccountID (Project csProject)) = Some la"
    and "GetRemoteSource (wh_configstoreClient h) (la_RemoteSourceID la) = Inr rs"
    and "GetGitSource (wh_ah h) rs (user_Name user) la = Inr gitSource"
    and "ParseWebhook gitSource r (project_WebhookSecret (Project csProject)) = Inr None"
  shows "webhooksHandler_do pk h r =
     (None,
      [CallGetProject projectID,
      CallGetUserByLinkedAccount (project_LinkedAccountID (Project csProject)),
      CallGetUserLinkedAccounts (user_ID user),
      CallGetRemoteSource (la_RemoteSourceID la),
      CallGetGitSource rs (user_Name user) la,
      CallParseWebhook (project_WebhookSecret (Project csProject)),
      LogInfo ''skipping webhook'',
      BodyClose])"
  using assms
  by (simp add: webhooksHandler_do_def do_afterDefer_def emit_def Let_def)

lemma do_closes_body:
  "Values_Get (req_Query r) ''projectid'' \<noteq> [] \<Longrightarrow>
   snd (webhooksHandler_do pk h r) \<noteq> [] \<and> last (snd (webhooksHandler_do pk h r)) = BodyClose"
  by (simp add: webhooksHandler_do_def Let_def)

lemma do_no_projectid:
  "Values_Get (req_Query r) ''projectid'' = [] \<Longrightarrow>
   webhooksHandler_do pk h r =
     (Some (NewAPIError ErrBadRequest
        [WithAPIErrorMsgf ''bad webhook url %q. Missing projectid'' [req_URL r]]), [])"
  by (simp add: webhooksHandler_do_def)

text \<open>
  Claim C1. The host key policy that \<^verbatim>\<open>do\<close> puts into the run creation request is
  the remote source's skip flag, overridden by the project's flag in one direction only:
  (remote source false, project true) gives true, (true, false) gives true,
  (false, false) gives false and (true, true) gives true. On the path that reaches
  \<^verbatim>\<open>CreateRuns\<close>, the one request handed over carries exactly this value.
\<close>

theorem do_skipSSHHostKeyCheck_override:
  assumes "Values_Get (req_Query r) ''projectid'' = projectID" and "projectID \<noteq> []"
    and "GetProject (wh_configstoreClient h) projectID = Inr csProject"
    and "GetUserByLinkedAccount (wh_configstoreClient h)
           (project_LinkedAccountID (Project csProject)) = Inr user"
    and "GetUserLinkedAccounts (wh_configstoreClient h) (user_ID user) = Inr linkedAccounts"
    and "scanLinkedAccounts linkedAccounts (project_LinkedAccountID (Project csProject)) = Some la"
    and "GetRemoteSource (wh_configstoreClient h) (la_RemoteSourceID la) = Inr rs"
    and "GetGitSource (wh_ah h) rs (user_Name user) la = Inr gitSource"
    and "ParseWebhook gitSource r (project_WebhookSecret (Project csProject)) = Inr (Some webhookData)"
  shows "(\<exists>req. filter isCreateRuns (snd (webhooksHandler_do pk h r)) = [CallCreateRuns req]
            \<and> crr_SkipSSHHostKeyCheck req = skipSSHHostKeyCheck rs (Project csProject))
     \<and> skipSSHHostKeyCheck rs (Project csProject) =
           (rs_SkipSSHHostKeyCheck rs \<or> project_SkipSSHHostKeyCheck (Project csProject))
     \<and> skipSSHHostKeyCheck (rs0\<lparr>rs_SkipSSHHostKeyCheck := False\<rparr>)
           (p0\<lparr>project_SkipSSHHostKeyCheck := True\<rparr>) = True
     \<and> skipSSHHostKeyCheck (rs0\<lparr>rs_SkipSSHHostKeyCheck := True\<rparr>)
           (p0\<lparr>project_SkipSSHHostKeyCheck := False\<rparr>) = True
     \<and> skipSSHHostKeyCheck (rs0\<lparr>rs_SkipSSHHostKeyCheck := False\<rparr>)
           (p0\<lparr>project_SkipSSHHostKeyCheck := False\<rparr>) = False
     \<and> skipSSHHostKeyCheck (rs0\<lparr>rs_SkipSSHHostKeyCheck := True\<rparr>)
           (p0\<lparr>project_SkipSSHHostKeyCheck := True\<rparr>) = True"
  by (simp add: do_run_path [OF assms] buildCreateRunRequest_def skipSSHHostKeyCheck_eq)

text \<open>
  The push delivery for project \<open>p1\<close>: the remote source requires the check, the
  project skips it, and the request carries the skip.
\<close>

theorem do_skipSSHHostKeyCheck_override_witness:
  "(\<exists>req. filter isCreateRuns (snd (webhooksHandler_do ex_packages ex_handler ex_push)) =
             [CallCreateRuns req]
          \<and> crr_SkipSSHHostKeyCheck req = skipSSHHostKeyCheck ex_rs ex_project)
   \<and> skipSSHHostKeyCheck ex_rs ex_project = True
   \<and> rs_SkipSSHHostKeyCheck ex_rs = False
   \<and> project_SkipSSHHostKeyCheck ex_project = True"
proof -
  have a: "Values_Get (req_Query ex_push) ''projectid'' = ''p1''"
    by (simp add: Values_Get_def ex_push_def)
  have b: "''p1'' \<noteq> []" by simp
  have c: "GetProject (wh_configstoreClient ex_handler) ''p1'' = Inr \<lparr> Project = ex_project \<rparr>"
    by (simp add: ex_handler_def ex_store_def)
  have d: "GetUserByLinkedAccount (wh_configstoreClient ex_handler)
             (project_LinkedAccountID (Project \<lparr> Project = ex_project \<rparr>)) = Inr ex_alice"
    by (simp add: ex_handler_def ex_store_def ex_project_def)
  have e: "GetUserLinkedAccounts (wh_configstoreClient ex_handler) (user_ID ex_alice) =
             Inr [ex_la0, ex_la1]"
    by (simp add: ex_handler_def ex_store_def ex_alice_def)
  have f: "scanLinkedAccounts [ex_la0, ex_la1]
             (project_LinkedAccountID (Project \<lparr> Project = ex_project \<rparr>)) = Some ex_la1"
    by (simp add: ex_la0_def ex_la1_def ex_project_def)
  have g: "GetRemoteSource (wh_configstoreClient ex_handler) (la_RemoteSourceID ex_la1) = Inr ex_rs"
    by (simp add: ex_handler_def ex_store_def ex_la1_def)
  have i: "GetGitSource (wh_ah ex_handler) ex_rs (user_Name ex_alice) ex_la1 = Inr ex_gitSource"
    by (simp add: ex_handler_def ex_ah_def)
  have j: "ParseWebhook ex_gitSource ex_push
             (project_WebhookSecret (Project \<lparr> Project = ex_project \<rparr>)) = Inr (Some ex_webhookData)"
    by (simp add: ex_gitSource_def ex_push_def)
  have k: "rs_SkipSSHHostKeyCheck ex_rs = False \<and> project_SkipSSHHostKeyCheck ex_project = True"
    by (simp add: ex_rs_def ex_project_def)
  from do_skipSSHHostKeyCheck_override [OF a b c d e f g i j, of ex_packages] k show ?thesis by auto
qed

text \<open>
  Claim C3. When the provider's parser answers no event and no error, \<^verbatim>\<open>do\<close>
  returns nil, logs the skip, and never calls \<^verbatim>\<open>CreateRuns\<close>.
\<close>

theorem do_nil_webhook_skips:
  assumes "Values_Get (req_Query r) ''projectid'' = projectID" and "projectID \<noteq> []"
    and "GetProject (wh_configstoreClient h) projectID = Inr csProject"
    and "GetUserByLinkedAccount (wh_configstoreClient h)
           (project_LinkedAccountID (Project csProject)) = Inr user"
    and "GetUserLinkedAccounts (wh_configstoreClient h) (user_ID user) = Inr linkedAccounts"
    and "scanLinkedAccounts linkedAccounts (project_LinkedAccountID (Project csProject)) = Some la"
    and "GetRemoteSource (wh_configstoreClient h) (la_RemoteSourceID la) = Inr rs"
    and "GetGitSource (wh_ah h) rs (user_Name user) la = Inr gitSource"
    and "ParseWebhook gitSource r (project_WebhookSecret (Project csProject)) = Inr None"
  shows "fst (webhooksHandler_do pk h r) = None
     \<and> filter isCreateRuns (snd (webhooksHandler_do pk h r)) = []
     \<and> LogInfo ''skipping webhook'' \<in> set (snd (webhooksHandler_do pk h r))"
  by (simp add: do_skip_path [OF assms])

text \<open>The ping delivery for project \<open>p1\<close>.\<close>

theorem do_nil_webhook_skips_witness:
  "ParseWebhook ex_gitSource ex_ping (project_WebhookSecret ex_project) = Inr None
   \<and> fst (webhooksHandler_do ex_packages ex_handler ex_ping) = None
   \<and> filter isCreateRuns (snd (webhooksHandler_do ex_packages ex_handler ex_ping)) = []
   \<and> LogInfo ''skipping webhook'' \<in> set (snd (webhooksHandler_do ex_packages ex_handler ex_ping))"
proof -
  have a: "Values_Get (req_Query ex_ping) ''projectid'' = ''p1''"
    by (simp add: Values_Get_def ex_ping_def)
  have b: "''p1'' \<noteq> []" by simp
  have c: "GetProject (wh_configstoreClient ex_handler) ''p1'' = Inr \<lparr> Project = ex_project \<rparr>"
    by (simp add: ex_handler_def ex_store_def)
  have d: "GetUserByLinkedAccount (wh_configstoreClient ex_handler)
             (project_LinkedAccountID (Project \<lparr> Project = ex_project \<rparr>)) = Inr ex_alice"
    by (simp add: ex_handler_def ex_store_def ex_project_def)
  have e: "GetUserLinkedAccounts (wh_configstoreClient ex_handler) (user_ID ex_alice) =
             Inr [ex_la0, ex_la1]"
    by (simp add: ex_handler_def ex_store_def ex_alice_def)
  have f: "scanLinkedAccounts [ex_la0, ex_la1]
             (project_LinkedAccountID (Project \<lparr> Project = ex_project \<rparr>)) = Some ex_la1"
    by (simp add: ex_la0_def ex_la1_def ex_project_def)
  have g: "GetRemoteSource (wh_configstoreClient ex_handler) (la_RemoteSourceID ex_la1) = Inr ex_rs"
    by (simp add: ex_handler_def ex_store_def ex_la1_def)
  have i: "GetGitSource (wh_ah ex_handler) ex_rs (user_Name ex_alice) ex_la1 = Inr ex_gitSource"
    by (simp add: ex_handler_def ex_ah_def)
  have j: "ParseWebhook ex_gitSource ex_ping
             (project_WebhookSecret (Project \<lparr> Project = ex_project \<rparr>)) = Inr None"
    by (simp add: ex_gitSource_def ex_ping_def)
  from do_nil_webhook_skips [OF a b c d e f g i j, of ex_packages] j show ?thesis by simp
qed

text \<open>
  Claim C4. A request whose query has no \<^verbatim>\<open>projectid\<close>, or whose first
  \<^verbatim>\<open>projectid\<close> is empty, is answered with a bad request error and with no effect at
  all: no lookup, no parsing, no run creation.
\<close>

theorem do_missing_projectid_bad_request:
  "req_Query r ''projectid'' = [] \<or> hd (req_Query r ''projectid'') = [] \<Longrightarrow>
   webhooksHandler_do pk h r =
     (Some (NewAPIError ErrBadRequest
        [WithAPIErrorMsgf ''bad webhook url %q. Missing projectid'' [req_URL r]]), [])"
  by (auto simp add: webhooksHandler_do_def Values_Get_def Let_def)

text \<open>The delivery to \<^verbatim>\<open>/webhooks\<close> with no query.\<close>

theorem do_missing_projectid_bad_request_witness:
  "req_Query ex_noid ''projectid'' = []
   \<and> webhooksHandler_do ex_packages ex_handler ex_noid =
     (Some (NewAPIError ErrBadRequest
        [WithAPIErrorMsgf ''bad webhook url %q. Missing projectid'' [''/webhooks'']]), [])"
proof -
  have a: "req_Query ex_noid ''projectid'' = []" by (simp add: ex_noid_def)
  have b: "req_URL ex_noid = ''/webhooks''" by (simp add: ex_noid_def)
  from do_missing_projectid_bad_request [OF disjI1 [OF a], of ex_packages ex_handler] a b show ?thesis by simp
qed

text \<open>
  Claim C6 says that the request body is closed on every exit path, the rejection of a
  missing \<^verbatim>\<open>projectid\<close> included. The \<^verbatim>\<open>defer\<close> of line 65 stands after the
  return of line 62: on that path the handler returns without closing the body. On every
  other path the close is the last effect (\<open>do_closes_body\<close>).
\<close>

theorem do_missing_projectid_body_not_closed:
  "webhooksHandler_do ex_packages ex_handler ex_noid =
     (Some (NewAPIError ErrBadRequest
        [WithAPIErrorMsgf ''bad webhook url %q. Missing projectid'' [''/webhooks'']]), [])
   \<and> BodyClose \<notin> set (snd (webhooksHandler_do ex_packages ex_handler ex_noid))"
  by (simp add: webhooksHandler_do_def Values_Get_def ex_noid_def)

text \<open>
  Claim C7. When the project, its user and the user's linked accounts are fetched and no
  linked account has the id the project refers to, \<^verbatim>\<open>do\<close> fails with an error of
  kind internal whose message is built from the missing linked account id and the user's
  name; the error is not a bad request, and no later lookup is made.
\<close>

theorem do_missing_linked_account_internal:
  assumes "Values_Get (req_Query r) ''projectid'' = projectID" and "projectID \<noteq> []"
    and "GetProject (wh_configstoreClient h) projectID = Inr csProject"
    and "GetUserByLinkedAccount (wh_configstoreClient h)
           (project_LinkedAccountID (Project csProject)) = Inr user"
    and "GetUserLinkedAccounts (wh_configstoreClient h) (user_ID user) = Inr linkedAccounts"
    and "\<forall>v \<in> set linkedAccounts. la_ID v \<noteq> project_LinkedAccountID (Project csProject)"
  shows "webhooksHandler_do pk h r =
     (Some (NewAPIError ErrInternal
        [WithAPIErrorMsgf ''linked account %q for user %q doesn't exist''
           [project_LinkedAccountID (Project csProject), user_Name user]]),
      [CallGetProject projectID,
       CallGetUserByLinkedAccount (project_LinkedAccountID (Project csProject)),
       CallGetUserLinkedAccounts (user_ID user),
       BodyClose])
     \<and> (\<forall>opts. fst (webhooksHandler_do pk h r) \<noteq> Some (NewAPIError ErrBadRequest opts))"
proof -
  have "scanLinkedAccounts linkedAccounts (project_LinkedAccountID (Project csProject)) = None"
    using assms(6) by (simp add: scanLinkedAccounts_None)
  with assms(1-5) show ?thesis
    by (simp add: webhooksHandler_do_def do_afterDefer_def emit_def Let_def)
qed

text \<open>The delivery for project \<open>p2\<close>, whose linked account \<open>la9\<close> bob does not hold.\<close>

theorem do_missing_linked_account_internal_witness:
  "webhooksHandler_do ex_packages ex_handler ex_orphan =
     (Some (NewAPIError ErrInternal
        [WithAPIErrorMsgf ''linked account %q for user %q doesn't exist'' [''la9'', ''bob'']]),
      [CallGetProject ''p2'', CallGetUserByLinkedAccount ''la9'',
       CallGetUserLinkedAccounts ''u2'', BodyClose])"
proof -
  have a: "Values_Get (req_Query ex_orphan) ''projectid'' = ''p2''"
    by (simp add: Values_Get_def ex_orphan_def)
  have b: "''p2'' \<noteq> []" by simp
  have c: "GetProject (wh_configstoreClient ex_handler) ''p2'' = Inr \<lparr> Project = ex_project2 \<rparr>"
    by (simp add: ex_handler_def ex_store_def)
  have d: "GetUserByLinkedAccount (wh_configstoreClient ex_handler)
             (project_LinkedAccountID (Project \<lparr> Project = ex_project2 \<rparr>)) = Inr ex_bob"
    by (simp add: ex_handler_def ex_store_def ex_project2_def)
  have e: "GetUserLinkedAccounts (wh_configstoreClient ex_handler) (user_ID ex_bob) = Inr [ex_la0]"
    by (simp add: ex_handler_def ex_store_def ex_bob_def)
  have f: "\<forall>v \<in> set [ex_la0]. la_ID v \<noteq> project_LinkedAccountID (Project \<lparr> Project = ex_project2 \<rparr>)"
    by (simp add: ex_la0_def ex_project2_def)
  have k: "project_LinkedAccountID ex_project2 = ''la9'' \<and> user_Name ex_bob = ''bob''
           \<and> user_ID ex_bob = ''u2''"
    by (simp add: ex_project2_def ex_bob_def)
  from do_missing_linked_account_internal [OF a b c d e f, of ex_packages] k show ?thesis by simp
qed

section \<open>Properties of the secret actions\<close>

subsection \<open>Ownership, name validation and delegation\<close>

lemma CreateSecret_not_owner:
  "IsAuthUserVariableOwner h (csr_ParentType req) (csr_ParentRef req) = Inr False \<Longrightarrow>
   CreateSecret pk h req =
     (Return (Inl (NewAPIError ErrForbidden [WithAPIErrorMsg ''user not authorized''])),
      [CallIsAuthUserVariableOwner (csr_ParentType req) (csr_ParentRef req)])"
  by (simp add: CreateSecret_def emit_def)

lemma UpdateSecret_not_owner:
  "IsAuthUserVariableOwner h (usr_ParentType req) (usr_ParentRef req) = Inr False \<Longrightarrow>
   UpdateSecret pk h req =
     (Return (Inl (NewAPIError ErrForbidden [WithAPIErrorMsg ''user not authorized''])),
      [CallIsAuthUserVariableOwner (usr_ParentType req) (usr_ParentRef req)])"
  by (simp add: UpdateSecret_def emit_def)

lemma DeleteSecret_not_owner:
  "IsAuthUserVariableOwner h parentType parentRef = Inr False \<Longrightarrow>
   DeleteSecret pk h parentType parentRef name =
     (Some (NewAPIError ErrForbidden [WithAPIErrorMsg ''user not authorized'']),
      [CallIsAuthUserVariableOwner parentType parentRef])"
  by (simp add: DeleteSecret_def emit_def)

text \<open>
  Claim C2. When the ownership check answers false without an error, each of
  \<^verbatim>\<open>CreateSecret\<close>, \<^verbatim>\<open>UpdateSecret\<close> and \<^verbatim>\<open>DeleteSecret\<close> returns the
  forbidden error, and its only effect is the ownership check: no create, update or
  delete call reaches the store.
\<close>

theorem non_owner_forbidden:
  "(IsAuthUserVariableOwner h (csr_ParentType creq) (csr_ParentRef creq) = Inr False \<longrightarrow>
      CreateSecret pk h creq =
        (Return (Inl (NewAPIError ErrForbidden [WithAPIErrorMsg ''user not authorized''])),
         [CallIsAuthUserVariableOwner (csr_ParentType creq) (csr_ParentRef creq)])
      \<and> filter isStoreMutation (snd (CreateSecret pk h creq)) = [])
   \<and> (IsAuthUserVariableOwner h (usr_ParentType ureq) (usr_ParentRef ureq) = Inr False \<longrightarrow>
      UpdateSecret pk h ureq =
        (Return (Inl (NewAPIError ErrForbidden [WithAPIErrorMsg ''user not authorized''])),
         [CallIsAuthUserVariableOwner (usr_ParentType ureq) (usr_ParentRef ureq)])
      \<and> filter isStoreMutation (snd (UpdateSecret pk h ureq)) = [])
   \<and> (IsAuthUserVariableOwner h parentType parentRef = Inr False \<longrightarrow>
      DeleteSecret pk h parentType parentRef name =
        (Some (NewAPIError ErrForbidden [WithAPIErrorMsg ''user not authorized'']),
         [CallIsAuthUserVariableOwner parentType parentRef])
      \<and> filter isStoreMutation (snd (DeleteSecret pk h parentType parentRef name)) = [])"
  by (simp add: CreateSecret_not_owner UpdateSecret_not_owner DeleteSecret_not_owner)

text \<open>The three actions on the scope \<open>foreign\<close>, which the acting user does not own.\<close>

theorem non_owner_forbidden_witness:
  "IsAuthUserVariableOwner ex_ah ObjectKindProject ''foreign'' = Inr False
   \<and> CreateSecret ex_packages ex_ah (ex_createSecretRequest ''tok'' ObjectKindProject ''foreign'') =
        (Return (Inl (NewAPIError ErrForbidden [WithAPIErrorMsg ''user not authorized''])),
         [CallIsAuthUserVariableOwner ObjectKindProject ''foreign''])
   \<and> UpdateSecret ex_packages ex_ah (ex_updateSecretRequest ''tok'' ObjectKindProject ''foreign'') =
        (Return (Inl (NewAPIError ErrForbidden [WithAPIErrorMsg ''user not authorized''])),
         [CallIsAuthUserVariableOwner ObjectKindProject ''foreign''])
   \<and> DeleteSecret ex_packages ex_ah ObjectKindProject ''foreign'' ''tok'' =
        (Some (NewAPIError ErrForbidden [WithAPIErrorMsg ''user not authorized'']),
         [CallIsAuthUserVariableOwner ObjectKindProject ''foreign''])"
proof -
  have a: "IsAuthUserVariableOwner ex_ah ObjectKindProject ''foreign'' = Inr False"
    by (simp add: ex_ah_def)
  have c: "csr_ParentType (ex_createSecretRequest ''tok'' ObjectKindProject ''foreign'') = ObjectKindProject
         \<and> csr_ParentRef (ex_createSecretRequest ''tok'' ObjectKindProject ''foreign'') = ''foreign''"
    by (simp add: ex_createSecretRequest_def)
  have u: "usr_ParentType (ex_updateSecretRequest ''tok'' ObjectKindProject ''foreign'') = ObjectKindProject
         \<and> usr_ParentRef (ex_updateSecretRequest ''tok'' ObjectKindProject ''foreign'') = ''foreign''"
    by (simp add: ex_updateSecretRequest_def)
  from non_owner_forbidden [of ex_ah "ex_createSecretRequest ''tok'' ObjectKindProject ''foreign''" ex_packages
      "ex_updateSecretRequest ''tok'' ObjectKindProject ''foreign''" ObjectKindProject "''foreign''" "''tok''"]
    a c u show ?thesis by simp
qed

lemma CreateSecret_delegate_store_call:
  "csr_ParentType req = ObjectKindProjectGroup \<or> csr_ParentType req = ObjectKindProject \<Longrightarrow>
   filter isStoreMutation (snd (CreateSecret_delegate pk h req)) \<noteq> []
   \<and> fst (CreateSecret_delegate pk h req) \<noteq> PanicNilDereference"
  by (auto simp add: CreateSecret_delegate_def ptrResult_def Let_def split: sum.splits)

lemma UpdateSecret_delegate_store_call:
  "usr_ParentType req = ObjectKindProjectGroup \<or> usr_ParentType req = ObjectKindProject \<Longrightarrow>
   filter isStoreMutation (snd (UpdateSecret_delegate pk h req)) \<noteq> []
   \<and> fst (UpdateSecret_delegate pk h req) \<noteq> PanicNilDereference"
  by (auto simp add: UpdateSecret_delegate_def ptrResult_def Let_def split: sum.splits)

lemma CreateSecret_delegate_other:
  "csr_ParentType req \<noteq> ObjectKindProjectGroup \<Longrightarrow> csr_ParentType req \<noteq> ObjectKindProject \<Longrightarrow>
   CreateSecret_delegate pk h req = (PanicNilDereference, [])"
  by (cases "csr_ParentType req") (simp_all add: CreateSecret_delegate_def)

lemma UpdateSecret_delegate_other:
  "usr_ParentType req \<noteq> ObjectKindProjectGroup \<Longrightarrow> usr_ParentType req \<noteq> ObjectKindProject \<Longrightarrow>
   UpdateSecret_delegate pk h req = (PanicNilDereference, [])"
  by (cases "usr_ParentType req") (simp_all add: UpdateSecret_delegate_def)

text \<open>
  Claim C5. For a variable owner, \<^verbatim>\<open>CreateSecret\<close> and \<^verbatim>\<open>UpdateSecret\<close> answer
  a name that \<^verbatim>\<open>util.ValidateName\<close> refuses with the bad request error that carries
  \<^verbatim>\<open>serrors.InvalidSecretName()\<close>, and make no store call. A name that passes is not
  stopped by the check: the run goes on to the delegation, which for a project or a
  project group calls the store. The rule itself is a parameter here.
\<close>

theorem invalid_secret_name_rejected:
  "(IsAuthUserVariableOwner h (csr_ParentType creq) (csr_ParentRef creq) = Inr True \<longrightarrow>
      (\<not> ValidateName pk (csr_Name creq) \<longrightarrow>
         CreateSecret pk h creq =
           (Return (Inl (NewAPIError ErrBadRequest
              [WithAPIErrorMsgf ''invalid secret name %q'' [csr_Name creq], InvalidSecretName])),
            [CallIsAuthUserVariableOwner (csr_ParentType creq) (csr_ParentRef creq)])
         \<and> filter isStoreCall (snd (CreateSecret pk h creq)) = [])
      \<and> (ValidateName pk (csr_Name creq) \<longrightarrow>
         CreateSecret pk h creq =
           emit (CallIsAuthUserVariableOwner (csr_ParentType creq) (csr_ParentRef creq))
             (CreateSecret_delegate pk h creq)
         \<and> (csr_ParentType creq = ObjectKindProjectGroup \<or> csr_ParentType creq = ObjectKindProject \<longrightarrow>
              filter isStoreMutation (snd (CreateSecret pk h creq)) \<noteq> [])))
   \<and> (IsAuthUserVariableOwner h (usr_ParentType ureq) (usr_ParentRef ureq) = Inr True \<longrightarrow>
      (\<not> ValidateName pk (usr_Name ureq) \<longrightarrow>
         UpdateSecret pk h ureq =
           (Return (Inl (NewAPIError ErrBadRequest
              [WithAPIErrorMsgf ''invalid secret name %q'' [usr_Name ureq], InvalidSecretName])),
            [CallIsAuthUserVariableOwner (usr_ParentType ureq) (usr_ParentRef ureq)])
         \<and> filter isStoreCall (snd (UpdateSecret pk h ureq)) = [])
      \<and> (ValidateName pk (usr_Name ureq) \<longrightarrow>
         UpdateSecret pk h ureq =
           emit (CallIsAuthUserVariableOwner (usr_ParentType ureq) (usr_ParentRef ureq))
             (UpdateSecret_delegate pk h ureq)
         \<and> (usr_ParentType ureq = ObjectKindProjectGroup \<or> usr_ParentType ureq = ObjectKindProject \<longrightarrow>
              filter isStoreMutation (snd (UpdateSecret pk h ureq)) \<noteq> [])))"
proof -
  have c: "filter isStoreMutation (snd (CreateSecret_delegate pk h creq)) \<noteq> []"
    if "csr_ParentType creq = ObjectKindProjectGroup \<or> csr_ParentType creq = ObjectKindProject"
    using CreateSecret_delegate_store_call [OF that] by simp
  have u: "filter isStoreMutation (snd (UpdateSecret_delegate pk h ureq)) \<noteq> []"
    if "usr_ParentType ureq = ObjectKindProjectGroup \<or> usr_ParentType ureq = ObjectKindProject"
    using UpdateSecret_delegate_store_call [OF that] by simp
  show ?thesis
    using c u by (simp add: CreateSecret_def UpdateSecret_def emit_def)
qed

text \<open>
  A name with a blank and the empty name are refused by the example rule; the name
  \<open>tok\<close> passes and the store is called.
\<close>

theorem invalid_secret_name_rejected_witness:
  "\<not> ValidateName ex_packages ''my token''
   \<and> CreateSecret ex_packages ex_ah (ex_createSecretRequest ''my token'' ObjectKindProject ''p1'') =
       (Return (Inl (NewAPIError ErrBadRequest
          [WithAPIErrorMsgf ''invalid secret name %q'' [''my token''], InvalidSecretName])),
        [CallIsAuthUserVariableOwner ObjectKindProject ''p1''])
   \<and> \<not> ValidateName ex_packages []
   \<and> UpdateSecret ex_packages ex_ah (ex_updateSecretRequest [] ObjectKindProjectGroup ''g1'') =
       (Return (Inl (NewAPIError ErrBadRequest
          [WithAPIErrorMsgf ''invalid secret name %q'' [[]], InvalidSecretName])),
        [CallIsAuthUserVariableOwner ObjectKindProjectGroup ''g1''])
   \<and> ValidateName ex_packages ''tok''
   \<and> filter isStoreMutation
         (snd (CreateSecret ex_packages ex_ah (ex_createSecretRequest ''tok'' ObjectKindProject ''p1''))) \<noteq> []"
proof -
  have o: "IsAuthUserVariableOwner ex_ah ObjectKindProject ''p1'' = Inr True
         \<and> IsAuthUserVariableOwner ex_ah ObjectKindProjectGroup ''g1'' = Inr True"
    by (simp add: ex_ah_def)
  have v: "\<not> ValidateName ex_packages ''my token'' \<and> \<not> ValidateName ex_packages []
         \<and> ValidateName ex_packages ''tok''"
    by (simp add: ex_packages_def)
  have c: "csr_ParentType (ex_createSecretRequest n ObjectKindProject ''p1'') = ObjectKindProject
         \<and> csr_ParentRef (ex_createSecretRequest n ObjectKindProject ''p1'') = ''p1''
         \<and> csr_Name (ex_createSecretRequest n ObjectKindProject ''p1'') = n" for n
    by (simp add: ex_createSecretRequest_def)
  have u: "usr_ParentType (ex_updateSecretRequest [] ObjectKindProjectGroup ''g1'') = ObjectKindProjectGroup
         \<and> usr_ParentRef (ex_updateSecretRequest [] ObjectKindProjectGroup ''g1'') = ''g1''
         \<and> usr_Name (ex_updateSecretRequest [] ObjectKindProjectGroup ''g1'') = []"
    by (simp add: ex_updateSecretRequest_def)
  from invalid_secret_name_rejected [of ex_ah "ex_createSecretRequest ''my token'' ObjectKindProject ''p1''"
      ex_packages "ex_updateSecretRequest [] ObjectKindProjectGroup ''g1''"] o v c u
  have refused: "CreateSecret ex_packages ex_ah (ex_createSecretRequest ''my token'' ObjectKindProject ''p1'') =
       (Return (Inl (NewAPIError ErrBadRequest
          [WithAPIErrorMsgf ''invalid secret name %q'' [''my token''], InvalidSecretName])),
        [CallIsAuthUserVariableOwner ObjectKindProject ''p1''])
     \<and> UpdateSecret ex_packages ex_ah (ex_updateSecretRequest [] ObjectKindProjectGroup ''g1'') =
       (Return (Inl (NewAPIError ErrBadRequest
          [WithAPIErrorMsgf ''invalid secret name %q'' [[]], InvalidSecretName])),
        [CallIsAuthUserVariableOwner ObjectKindProjectGroup ''g1''])"
    by simp
  from invalid_secret_name_rejected [of ex_ah "ex_createSecretRequest ''tok'' ObjectKindProject ''p1''"
      ex_packages "ex_updateSecretRequest [] ObjectKindProjectGroup ''g1''"] o v c
  have passed: "filter isStoreMutation
         (snd (CreateSecret ex_packages ex_ah (ex_createSecretRequest ''tok'' ObjectKindProject ''p1''))) \<noteq> []"
    by auto
  from refused passed v show ?thesis by simp
qed

lemma CreateSecret_other_kind_panics:
  assumes "IsAuthUserVariableOwner h (csr_ParentType req) (csr_ParentRef req) = Inr True"
    and "ValidateName pk (csr_Name req)"
    and "csr_ParentType req \<noteq> ObjectKindProjectGroup" and "csr_ParentType req \<noteq> ObjectKindProject"
  shows "CreateSecret pk h req =
     (PanicNilDereference, [CallIsAuthUserVariableOwner (csr_ParentType req) (csr_ParentRef req)])"
  using assms by (simp add: CreateSecret_def emit_def CreateSecret_delegate_other)

lemma UpdateSecret_other_kind_panics:
  assumes "IsAuthUserVariableOwner h (usr_ParentType req) (usr_ParentRef req) = Inr True"
    and "ValidateName pk (usr_Name req)"
    and "usr_ParentType req \<noteq> ObjectKindProjectGroup" and "usr_ParentType req \<noteq> ObjectKindProject"
  shows "UpdateSecret pk h req =
     (PanicNilDereference, [CallIsAuthUserVariableOwner (usr_ParentType req) (usr_ParentRef req)])"
  using assms by (simp add: UpdateSecret_def emit_def UpdateSecret_delegate_other)

lemma CreateSecret_known_kind_returns:
  "csr_ParentType req = ObjectKindProjectGroup \<or> csr_ParentType req = ObjectKindProject \<Longrightarrow>
   fst (CreateSecret pk h req) \<noteq> PanicNilDereference"
  using CreateSecret_delegate_store_call [of req pk h]
  by (simp add: CreateSecret_def emit_def split: sum.splits)

lemma UpdateSecret_known_kind_returns:
  "usr_ParentType req = ObjectKindProjectGroup \<or> usr_ParentType req = ObjectKindProject \<Longrightarrow>
   fst (UpdateSecret pk h req) \<noteq> PanicNilDereference"
  using UpdateSecret_delegate_store_call [of req pk h]
  by (simp add: UpdateSecret_def emit_def split: sum.splits)

text \<open>
  Claim C9 says that the success path of \<^verbatim>\<open>CreateSecret\<close> and \<^verbatim>\<open>UpdateSecret\<close>
  never dereferences a nil result, also for a parent type that is neither project nor
  project group. For such a parent type, an owner and a valid name, no case of the switch
  runs, \<^verbatim>\<open>err\<close> is nil and \<^verbatim>\<open>rs\<close> is nil: reading \<^verbatim>\<open>rs.Name\<close> for the log
  line panics. For a project or a project group the run does return
  (\<open>CreateSecret_known_kind_returns\<close>, \<open>UpdateSecret_known_kind_returns\<close>).
\<close>

theorem CreateSecret_other_kind_nil_dereference:
  "CreateSecret ex_packages ex_ah (ex_createSecretRequest ''tok'' (ObjectKindOther ''user'') ''u1'') =
     (PanicNilDereference, [CallIsAuthUserVariableOwner (ObjectKindOther ''user'') ''u1''])
   \<and> UpdateSecret ex_packages ex_ah (ex_updateSecretRequest ''tok'' (ObjectKindOther ''user'') ''u1'') =
     (PanicNilDereference, [CallIsAuthUserVariableOwner (ObjectKindOther ''user'') ''u1''])"
  by (simp add: CreateSecret_def UpdateSecret_def emit_def CreateSecret_delegate_def
      UpdateSecret_delegate_def ex_createSecretRequest_def ex_updateSecretRequest_def
      ex_ah_def ex_packages_def)

text \<open>
  Claim C10. \<^verbatim>\<open>DeleteSecret\<close> by a variable owner, for a parent type that is neither
  project nor project group, returns nil and calls no delete of the store.
\<close>

theorem DeleteSecret_other_kind_no_delete:
  assumes "IsAuthUserVariableOwner h parentType parentRef = Inr True"
    and "parentType \<noteq> ObjectKindProject" and "parentType \<noteq> ObjectKindProjectGroup"
  shows "DeleteSecret pk h parentType parentRef name =
           (None, [CallIsAuthUserVariableOwner parentType parentRef])
     \<and> filter isStoreMutation (snd (DeleteSecret pk h parentType parentRef name)) = []"
  using assms by (cases parentType) (simp_all add: DeleteSecret_def emit_def)

text \<open>Deleting under a parent of kind \<open>user\<close>.\<close>

theorem DeleteSecret_other_kind_no_delete_witness:
  "IsAuthUserVariableOwner ex_ah (ObjectKindOther ''user'') ''u1'' = Inr True
   \<and> DeleteSecret ex_packages ex_ah (ObjectKindOther ''user'') ''u1'' ''tok'' =
       (None, [CallIsAuthUserVariableOwner (ObjectKindOther ''user'') ''u1''])"
proof -
  have a: "IsAuthUserVariableOwner ex_ah (ObjectKindOther ''user'') ''u1'' = Inr True"
    by (simp add: ex_ah_def)
  from DeleteSecret_other_kind_no_delete [OF a, of ex_packages "''tok''"] a show ?thesis by simp
qed

subsection \<open>The shadowing filter\<close>

lemma FilterOverriddenSecrets_subset:
  "set (FilterOverriddenSecrets secrets) \<subseteq> set secrets"
  by (simp add: FilterOverriddenSecrets_def)

lemma FilterOverriddenSecrets_member:
  "s \<in> set (FilterOverriddenSecrets secrets) = (s \<in> set secrets \<and> \<not> overridden secrets s)"
  by (simp add: FilterOverriddenSecrets_def)

lemma deepest_exists:
  assumes "s0 \<in> set secrets"
  shows "\<exists>s \<in> set secrets. secret_Name s = secret_Name s0 \<and> \<not> overridden secrets s"
proof -
  let ?S = "{t \<in> set secrets. secret_Name t = secret_Name s0}"
  have fin: "finite (secret_Depth ` ?S)" by simp
  have ne: "secret_Depth ` ?S \<noteq> {}" using assms by auto
  from Max_in [OF fin ne] obtain s where s: "s \<in> ?S" "secret_Depth s = Max (secret_Depth ` ?S)"
    by auto
  have "\<not> overridden secrets s"
  proof
    assume "overridden secrets s"
    then obtain t where t: "t \<in> set secrets" "secret_Name t = secret_Name s"
        "secret_Depth s < secret_Depth t"
      by (auto simp add: overridden_def)
    with s have "secret_Depth t \<in> secret_Depth ` ?S" by auto
    from Max_ge [OF fin this] s t show False by simp
  qed
  with s show ?thesis by auto
qed

lemma FilterOverriddenSecrets_names:
  "secret_Name ` set (FilterOverriddenSecrets secrets) = secret_Name ` set secrets"
proof
  show "secret_Name ` set (FilterOverriddenSecrets secrets) \<subseteq> secret_Name ` set secrets"
    using FilterOverriddenSecrets_subset by blast
next
  show "secret_Name ` set secrets \<subseteq> secret_Name ` set (FilterOverriddenSecrets secrets)"
  proof
    fix n assume "n \<in> secret_Name ` set secrets"
    then obtain s0 where "s0 \<in> set secrets" "n = secret_Name s0" by auto
    with deepest_exists [of s0 secrets] obtain s where
      "s \<in> set secrets" "secret_Name s = n" "\<not> overridden secrets s" by auto
    then show "n \<in> secret_Name ` set (FilterOverriddenSecrets secrets)"
      by (auto simp add: FilterOverriddenSecrets_member intro!: image_eqI [where x = s])
  qed
qed

lemma FilterOverriddenSecrets_deepest:
  assumes "s \<in> set (FilterOverriddenSecrets secrets)" and "t \<in> set secrets"
    and "secret_Name t = secret_Name s"
  shows "secret_Depth t \<le> secret_Depth s"
proof (rule ccontr)
  assume "\<not> secret_Depth t \<le> secret_Depth s"
  with assms(2,3) have "overridden secrets s" by (auto simp add: overridden_def)
  with assms(1) show False by (simp add: FilterOverriddenSecrets_member)
qed

lemma FilterOverriddenSecrets_distinct_names:
  assumes "distinct (map (\<lambda>s. (secret_Name s, secret_Depth s)) secrets)"
  shows "distinct (map secret_Name (FilterOverriddenSecrets secrets))"
proof -
  let ?key = "\<lambda>s. (secret_Name s, secret_Depth s)"
  let ?out = "FilterOverriddenSecrets secrets"
  have d: "distinct (map ?key ?out)"
    using assms by (simp add: FilterOverriddenSecrets_def distinct_map_filter)
  have inj: "inj_on secret_Name (set ?out)"
  proof (rule inj_onI)
    fix s t assume st: "s \<in> set ?out" "t \<in> set ?out" "secret_Name s = secret_Name t"
    have "secret_Depth t \<le> secret_Depth s"
      using FilterOverriddenSecrets_deepest [OF st(1)] st FilterOverriddenSecrets_subset by auto
    moreover have "secret_Depth s \<le> secret_Depth t"
      using FilterOverriddenSecrets_deepest [OF st(2)] st FilterOverriddenSecrets_subset by auto
    ultimately have "?key s = ?key t" using st(3) by simp
    with d st show "s = t" by (auto simp add: distinct_map dest: inj_onD)
  qed
  from d have "distinct ?out" by (simp add: distinct_map)
  with inj show ?thesis by (simp add: distinct_map)
qed

lemma FilterOverriddenSecrets_dropped:
  assumes "s \<in> set secrets" and "s \<notin> set (FilterOverriddenSecrets secrets)"
  shows "\<exists>t \<in> set (FilterOverriddenSecrets secrets).
           secret_Name t = secret_Name s \<and> secret_Depth s < secret_Depth t"
proof -
  from assms obtain u where u: "u \<in> set secrets" "secret_Name u = secret_Name s"
      "secret_Depth s < secret_Depth u"
    by (auto simp add: FilterOverriddenSecrets_member overridden_def)
  from deepest_exists [OF assms(1)] obtain t where t: "t \<in> set secrets"
      "secret_Name t = secret_Name s" "\<not> overridden secrets t"
    by auto
  from t have "t \<in> set (FilterOverriddenSecrets secrets)"
    by (simp add: FilterOverriddenSecrets_member)
  moreover from this u t have "secret_Depth u \<le> secret_Depth t"
    by (intro FilterOverriddenSecrets_deepest) simp_all
  ultimately show ?thesis using t(2) u(3) by (intro bexI [of _ t]) auto
qed

lemma FilterOverriddenSecrets_example:
  "FilterOverriddenSecrets [ex_secretA_group, ex_secretA_project, ex_secretB_group] =
     [ex_secretA_project, ex_secretB_group]"
  by (simp add: FilterOverriddenSecrets_def overridden_def ex_secretA_group_def
      ex_secretA_project_def ex_secretB_group_def)

lemma GetSecrets_store_answer:
  assumes "(gsr_ParentType req = ObjectKindProjectGroup \<and>
            GetProjectGroupSecrets (ah_configstoreClient h) (gsr_ParentRef req) (gsr_Tree req) = Inr stored)
         \<or> (gsr_ParentType req = ObjectKindProject \<and>
            GetProjectSecrets (ah_configstoreClient h) (gsr_ParentRef req) (gsr_Tree req) = Inr stored)"
  shows "fst (GetSecrets pk h req) =
     Inr (if gsr_RemoveOverridden req then FilterOverriddenSecrets stored else stored)"
  using assms by (auto simp add: GetSecrets_def sliceResult_def Let_def)

text \<open>
  Claim C8. With the remove-overridden flag set and the store answering a list of
  secrets, \<^verbatim>\<open>GetSecrets\<close> returns the filtered list: it keeps the order of the
  store's list, every name of the store's list is still present, each secret returned is
  at least as deep as every secret of the same name, each secret left out is shadowed by
  a deeper one that is returned, and when name and level identify a secret each name
  occurs once. The secrets A at a project group, A at the project and B at the project
  group give A at the project and B at the project group.
\<close>

theorem GetSecrets_remove_overridden:
  assumes "gsr_RemoveOverridden req"
    and "(gsr_ParentType req = ObjectKindProjectGroup \<and>
            GetProjectGroupSecrets (ah_configstoreClient h) (gsr_ParentRef req) (gsr_Tree req) = Inr stored)
         \<or> (gsr_ParentType req = ObjectKindProject \<and>
            GetProjectSecrets (ah_configstoreClient h) (gsr_ParentRef req) (gsr_Tree req) = Inr stored)"
  shows "(let out = FilterOverriddenSecrets stored in
       fst (GetSecrets pk h req) = Inr out
     \<and> out = filter (\<lambda>s. s \<in> set out) stored
     \<and> secret_Name ` set out = secret_Name ` set stored
     \<and> (\<forall>s \<in> set out. \<forall>t \<in> set stored.
           secret_Name t = secret_Name s \<longrightarrow> secret_Depth t \<le> secret_Depth s)
     \<and> (\<forall>s \<in> set stored. s \<notin> set out \<longrightarrow> (\<exists>t \<in> set out.
           secret_Name t = secret_Name s \<and> secret_Depth s < secret_Depth t))
     \<and> (distinct (map (\<lambda>s. (secret_Name s, secret_Depth s)) stored) \<longrightarrow>
           distinct (map secret_Name out)))
     \<and> FilterOverriddenSecrets [ex_secretA_group, ex_secretA_project, ex_secretB_group] =
           [ex_secretA_project, ex_secretB_group]"
proof -
  let ?out = "FilterOverriddenSecrets stored"
  have r: "fst (GetSecrets pk h req) = Inr ?out"
    using GetSecrets_store_answer [OF assms(2), of pk] assms(1) by simp
  have o: "?out = filter (\<lambda>s. s \<in> set ?out) stored"
    unfolding FilterOverriddenSecrets_def by (rule filter_cong) auto
  have n: "secret_Name ` set ?out = secret_Name ` set stored"
    by (rule FilterOverriddenSecrets_names)
  have d: "\<forall>s \<in> set ?out. \<forall>t \<in> set stored.
             secret_Name t = secret_Name s \<longrightarrow> secret_Depth t \<le> secret_Depth s"
    using FilterOverriddenSecrets_deepest by blast
  have g: "\<forall>s \<in> set stored. s \<notin> set ?out \<longrightarrow> (\<exists>t \<in> set ?out.
             secret_Name t = secret_Name s \<and> secret_Depth s < secret_Depth t)"
    using FilterOverriddenSecrets_dropped by blast
  have u: "distinct (map (\<lambda>s. (secret_Name s, secret_Depth s)) stored) \<longrightarrow>
             distinct (map secret_Name ?out)"
    using FilterOverriddenSecrets_distinct_names by blast
  show ?thesis
    unfolding Let_def
    by (intro conjI r o n d g u FilterOverriddenSecrets_example)
qed

text \<open>Reading the secrets of project \<open>p1\<close> with its ancestors.\<close>

theorem GetSecrets_remove_overridden_witness:
  "gsr_RemoveOverridden ex_getSecretsRequest
   \<and> GetProjectSecrets (ah_configstoreClient ex_ah) ''p1'' True =
       Inr [ex_secretA_group, ex_secretA_project, ex_secretB_group]
   \<and> fst (GetSecrets ex_packages ex_ah ex_getSecretsRequest) =
       Inr [ex_secretA_project, ex_secretB_group]"
proof -
  have a: "gsr_RemoveOverridden ex_getSecretsRequest" by (simp add: ex_getSecretsRequest_def)
  have s: "GetProjectSecrets (ah_configstoreClient ex_ah) ''p1'' True =
             Inr [ex_secretA_group, ex_secretA_project, ex_secretB_group]"
    by (simp add: ex_ah_def ex_store_def)
  have b: "(gsr_ParentType ex_getSecretsRequest = ObjectKindProjectGroup \<and>
            GetProjectGroupSecrets (ah_configstoreClient ex_ah) (gsr_ParentRef ex_getSecretsRequest)
              (gsr_Tree ex_getSecretsRequest) =
            Inr [ex_secretA_group, ex_secretA_project, ex_secretB_group])
         \<or> (gsr_ParentType ex_getSecretsRequest = ObjectKindProject \<and>
            GetProjectSecrets (ah_configstoreClient ex_ah) (gsr_ParentRef ex_getSecretsRequest)
              (gsr_Tree ex_getSecretsRequest) =
            Inr [ex_secretA_group, ex_secretA_project, ex_secretB_group])"
    using s by (simp add: ex_getSecretsRequest_def)
  from GetSecrets_remove_overridden [OF a b, of ex_packages]
  have "fst (GetSecrets ex_packages ex_ah ex_getSecretsRequest) =
          Inr (FilterOverriddenSecrets [ex_secretA_group, ex_secretA_project, ex_secretB_group])
      \<and> FilterOverriddenSecrets [ex_secretA_group, ex_secretA_project, ex_secretB_group] =
          [ex_secretA_project, ex_secretB_group]"
    unfolding Let_def by fast
  with a s show ?thesis by simp
qed

end
